theory Spec2Isabelle
  imports Main
begin

section \<open>Python values\<close>

text \<open>
  A Python \<open>str\<close> is a sequence of Unicode code points, so a string is a list of
  code points (\<open>nat\<close>): the column names of the sheets are Chinese, and
  \<open>str.strip\<close> removes Unicode white space. \<open>ascii\<close> writes an ASCII literal.
\<close>

type_synonym pystr = "nat list"

definition ascii :: "string \<Rightarrow> pystr" where
  "ascii s = map of_char s"

text \<open>\<open>str.isspace\<close> of one code point (the code points Python strips).\<close>

definition py_isspace :: "nat \<Rightarrow> bool" where
  "py_isspace c =
     (c \<in> set [9, 10, 11, 12, 13, 28, 29, 30, 31, 32, 133, 160, 5760,
                8192, 8193, 8194, 8195, 8196, 8197, 8198, 8199, 8200, 8201, 8202,
                8232, 8233, 8239, 8287, 12288])"

text \<open>\<open>s.strip()\<close>: leading and trailing white space removed.\<close>

definition strip :: "pystr \<Rightarrow> pystr" where
  "strip s = rev (dropWhile py_isspace (rev (dropWhile py_isspace s)))"

text \<open>\<open>str(n)\<close> of an \<open>int\<close>: decimal digits, a minus sign when negative.\<close>

function str_nat :: "nat \<Rightarrow> pystr" where
  "str_nat n = (if n < 10 then [48 + n] else str_nat (n div 10) @ [48 + n mod 10])"
  by pat_completeness auto
termination
  by (relation "measure id") auto

declare str_nat.simps [simp del]

definition str_int :: "int \<Rightarrow> pystr" where
  "str_int i = (if i < 0 then 45 # str_nat (nat (- i)) else str_nat (nat i))"

text \<open>
  The values a record (a \<open>Dict[str, Any]\<close>) holds in this program are strings and
  integers. \<open>py_str\<close> is \<open>str(v)\<close>.
\<close>

datatype pyval = PStr pystr | PInt int

fun py_str :: "pyval \<Rightarrow> pystr" where
  "py_str (PStr s) = s"
| "py_str (PInt i) = str_int i"

text \<open>
  A cell of a DataFrame read from a sheet is a string or the missing value \<open>pd.NA\<close>
  (\<open>None\<close> here).
\<close>

type_synonym cell = "pystr option"

datatype pyerr = KeyError | TypeError | ValueError | APIError

section \<open>gs.py: the column letter\<close>

text \<open>
  \<^verbatim>\<open>
  def _col_letter(n: int) -> str:
      s = ""
      while n:
          n, r = divmod(n - 1, 26)
          s = chr(r + 65) + s
      return s
  \<close>
  Python's \<open>divmod\<close> floors, as \<open>div\<close> and \<open>mod\<close> on \<open>int\<close> do. The loop does
  not end on a negative \<open>n\<close> (\<open>-1\<close> maps to itself), so the result is an option.
\<close>

partial_function (option) col_letter_loop :: "int \<Rightarrow> pystr \<Rightarrow> pystr option" where
  "col_letter_loop n s =
     (if n \<noteq> 0
      then col_letter_loop ((n - 1) div 26) ((nat ((n - 1) mod 26) + 65) # s)
      else Some s)"

declare col_letter_loop.simps [code]

definition col_letter :: "int \<Rightarrow> pystr option" where
  "col_letter n = col_letter_loop n []"

text \<open>
  What a spreadsheet reads in a column label: the letters \<open>A..Z\<close> are the digits
  \<open>1..26\<close> of a base-26 numeral without zero.
\<close>

definition is_label :: "pystr \<Rightarrow> bool" where
  "is_label s = list_all (\<lambda>c. 65 \<le> c \<and> c \<le> 90) s"

definition label_value :: "pystr \<Rightarrow> nat" where
  "label_value s = foldl (\<lambda>acc c. acc * 26 + (c - 64)) 0 s"

section \<open>gs.py: the workbook\<close>

text \<open>
  The workbook \<open>_SH\<close> lives in the remote spreadsheet service, reached through gspread.
  It is modelled as explicit state: a worksheet is the list of its rows, a row the list of
  the text of its cells, and the workbook maps a worksheet's title to its rows. The
  operations of the worksheet that \<open>gs.py\<close> calls are:
  \<^item> \<open>ws.get_all_values()\<close>: the rows up to the last one that holds a value (the
    service leaves out the blank rows after it), each filled with empty strings to the
    width of the widest one;
  \<^item> \<open>ws.append_row(row)\<close>: the row added after the last row that holds a value;
  \<^item> \<open>ws.delete_rows(1)\<close> and \<open>ws.insert_row(values, 1)\<close>: the first row removed,
    a row put in front;
  \<^item> \<open>ws.update(range, [values])\<close>: the cells of one row overwritten, the range named
    in A1 notation.
  A value written to a cell is read back as its text (\<open>py_str\<close>).
\<close>

type_synonym grid = "pystr list list"

definition width :: "grid \<Rightarrow> nat" where
  "width g = foldr (\<lambda>r m. max (length r) m) g 0"

definition pad :: "nat \<Rightarrow> pystr list \<Rightarrow> pystr list" where
  "pad w r = r @ replicate (w - length r) []"

text \<open>
  A row is blank when none of its cells holds a value. The rows in use are the rows up to
  the last one that is not blank: a sheet of blank rows only has none.
\<close>

definition blank_row :: "pystr list \<Rightarrow> bool" where
  "blank_row r = list_all (\<lambda>c. c = []) r"

definition used_rows :: "grid \<Rightarrow> grid" where
  "used_rows g = rev (dropWhile blank_row (rev g))"

definition get_all_values :: "grid \<Rightarrow> grid" where
  "get_all_values g = map (pad (width (used_rows g))) (used_rows g)"

definition ws_append_row :: "grid \<Rightarrow> pystr list \<Rightarrow> grid" where
  "ws_append_row g row = used_rows g @ [row]"

text \<open>A1 notation, as the service reads the range of an update of one row.\<close>

definition is_upper :: "nat \<Rightarrow> bool" where
  "is_upper c = (65 \<le> c \<and> c \<le> 90)"

definition is_digit :: "nat \<Rightarrow> bool" where
  "is_digit c = (48 \<le> c \<and> c \<le> 57)"

definition digits_value :: "pystr \<Rightarrow> nat" where
  "digits_value s = foldl (\<lambda>acc c. acc * 10 + (c - 48)) 0 s"

definition a1_cell :: "pystr \<Rightarrow> (nat \<times> nat) option" where
  "a1_cell s =
     (let d = dropWhile is_upper s
      in if d \<noteq> [] \<and> list_all is_digit d
         then Some (label_value (takeWhile is_upper s), digits_value d)
         else None)"

definition a1_parse :: "pystr \<Rightarrow> ((nat \<times> nat) \<times> (nat \<times> nat)) option" where
  "a1_parse s =
     (case a1_cell (takeWhile (\<lambda>c. c \<noteq> 58) s) of
        None \<Rightarrow> None
      | Some a \<Rightarrow>
          (case a1_cell (drop 1 (dropWhile (\<lambda>c. c \<noteq> 58) s)) of
             None \<Rightarrow> None
           | Some b \<Rightarrow> Some (a, b)))"

text \<open>
  Row \<open>r\<close> (from 0) gets \<open>vals\<close> from column \<open>c\<close> (from 0) on; cells to the right of
  the values stay, and a row below the last one comes into being.
\<close>

definition write_row :: "grid \<Rightarrow> nat \<Rightarrow> nat \<Rightarrow> pystr list \<Rightarrow> grid" where
  "write_row g r c vals =
     (let g' = g @ replicate (Suc r - length g) [];
          old = pad c (g' ! r)
      in g'[r := take c old @ vals @ drop (c + length vals) old])"

definition ws_update :: "grid \<Rightarrow> pystr \<Rightarrow> pystr list \<Rightarrow> pyerr + grid" where
  "ws_update g rng vals =
     (case a1_parse rng of
        None \<Rightarrow> Inl APIError
      | Some ((c1, r1), (c2, r2)) \<Rightarrow>
          if c1 = 0 \<or> r1 = 0 \<or> r2 \<noteq> r1 \<or> c2 + 1 - c1 < length vals then Inl APIError
          else Inr (write_row g (r1 - 1) (c1 - 1) vals))"

text \<open>
  A DataFrame: its column names and its rows of cells. \<open>df.empty\<close> holds when an axis
  has length 0.
\<close>

datatype frame = Frame (columns: "pystr list") (records: "cell list list")

definition df_empty :: "frame \<Rightarrow> bool" where
  "df_empty df = (columns df = [] \<or> records df = [])"

text \<open>
  The state: the workbook, and the memo that \<open>@st.cache_data(ttl=5)\<close> keeps of
  \<open>read_df\<close> by its argument. An entry whose five seconds have passed is an entry the
  memo does not hold; \<open>st.cache_data.clear()\<close> empties it.
\<close>

record store =
  sheets :: "pystr \<rightharpoonup> grid"
  cache :: "pystr \<rightharpoonup> frame"

definition put_sheet :: "pystr \<Rightarrow> grid \<Rightarrow> store \<Rightarrow> store" where
  "put_sheet name g st = st\<lparr>sheets := (sheets st)(name \<mapsto> g)\<rparr>"

definition cache_clear :: "store \<Rightarrow> store" where
  "cache_clear st = st\<lparr>cache := Map.empty\<rparr>"


text \<open>
  \<^verbatim>\<open>
  def ensure_worksheet(name, headers=None):
      try:
          ws = _SH.worksheet(name)
      except gspread.WorksheetNotFound:
          ws = _SH.add_worksheet(title=name, rows=1000, cols=50)
          if headers:
              ws.append_row(list(headers))
      else:
          if headers:
              vals = ws.get_all_values()
              if len(vals) == 0:
                  ws.append_row(list(headers))
      return ws
  \<close>
  \<open>headers\<close> is \<open>[]\<close> for \<open>None\<close> (both are false). The worksheet returned is its
  rows, with the state that holds them.
\<close>

definition ensure_worksheet :: "pystr \<Rightarrow> pystr list \<Rightarrow> store \<Rightarrow> grid \<times> store" where
  "ensure_worksheet name headers st =
     (case sheets st name of
        None \<Rightarrow>
          (let g = (if headers \<noteq> [] then [headers] else []) in (g, put_sheet name g st))
      | Some g \<Rightarrow>
          if headers \<noteq> [] \<and> length (get_all_values g) = 0
          then (ws_append_row g headers, put_sheet name (ws_append_row g headers) st)
          else (g, st))"

text \<open>
  \<^verbatim>\<open>
  @st.cache_data(ttl=5)
  def read_df(sheet_name):
      try:
          ws = _SH.worksheet(sheet_name)
      except gspread.WorksheetNotFound:
          return pd.DataFrame()
      rows = ws.get_all_values()
      if not rows:
          return pd.DataFrame()
      headers = rows[0]
      records = rows[1:]
      df = pd.DataFrame(records, columns=headers)
      df = df.replace("", pd.NA)
      return df
  \<close>
  \<open>read_sheet\<close> is the body, \<open>read_df\<close> the memoised function.
\<close>

definition blank_to_na :: "pystr \<Rightarrow> cell" where
  "blank_to_na s = (if s = [] then None else Some s)"

definition read_sheet :: "pystr \<Rightarrow> store \<Rightarrow> frame" where
  "read_sheet sheet_name st =
     (case sheets st sheet_name of
        None \<Rightarrow> Frame [] []
      | Some g \<Rightarrow>
          (case get_all_values g of
             [] \<Rightarrow> Frame [] []
           | headers # recs \<Rightarrow> Frame headers (map (map blank_to_na) recs)))"

definition read_df :: "pystr \<Rightarrow> store \<Rightarrow> frame \<times> store" where
  "read_df sheet_name st =
     (case cache st sheet_name of
        Some df \<Rightarrow> (df, st)
      | None \<Rightarrow>
          (let df = read_sheet sheet_name st
           in (df, st\<lparr>cache := (cache st)(sheet_name \<mapsto> df)\<rparr>)))"

text \<open>
  A record is a dict: its items in insertion order. \<open>rget record k\<close> is
  \<open>record.get(k, "")\<close>.
\<close>

type_synonym pyrecord = "(pystr \<times> pyval) list"

definition rget :: "pyrecord \<Rightarrow> pystr \<Rightarrow> pyval" where
  "rget record k = (case map_of record k of None \<Rightarrow> PStr [] | Some v \<Rightarrow> v)"

text \<open>
  \<^verbatim>\<open>
  def _normalize_headers(ws, record):
      values = ws.get_all_values()
      if values:
          headers = values[0]
      else:
          headers = []
      missing = [k for k in record.keys() if k not in headers]
      if missing:
          new_headers = headers + missing
          ws.delete_rows(1)
          ws.insert_row(new_headers, 1)
          return new_headers
      return headers
  \<close>
\<close>

definition first_row :: "grid \<Rightarrow> pystr list" where
  "first_row g = (case get_all_values g of [] \<Rightarrow> [] | h # _ \<Rightarrow> h)"

definition normalize_headers :: "grid \<Rightarrow> pyrecord \<Rightarrow> pystr list \<times> grid" where
  "normalize_headers g record =
     (let headers = first_row g;
          missing = filter (\<lambda>k. k \<notin> set headers) (map fst record)
      in if missing \<noteq> []
         then (headers @ missing, (headers @ missing) # drop 1 g)
         else (headers, g))"

text \<open>\<open>[record.get(h, "") for h in headers]\<close>, as the cells hold it.\<close>

definition project :: "pyrecord \<Rightarrow> pystr list \<Rightarrow> pystr list" where
  "project record headers = map (\<lambda>h. py_str (rget record h)) headers"

text \<open>
  \<^verbatim>\<open>
  def append_row(sheet_name, record):
      ws = ensure_worksheet(sheet_name)
      headers = _normalize_headers(ws, record)
      row = [record.get(h, "") for h in headers]
      ws.append_row(row)
  \<close>
\<close>

definition append_row :: "pystr \<Rightarrow> pyrecord \<Rightarrow> store \<Rightarrow> store" where
  "append_row sheet_name record st =
     (let (g, st1) = ensure_worksheet sheet_name [] st;
          (headers, g1) = normalize_headers g record
      in put_sheet sheet_name (ws_append_row g1 (project record headers)) st1)"

text \<open>
  The key comparison of \<open>upsert_row\<close>:
  \<^verbatim>\<open>
  mask = pd.Series([True] * len(df))
  for k in key_cols:
      mask &= (df[k].astype(str).fillna("") == str(record.get(k, "")))
  \<close>
  \<open>df[k]\<close> raises \<open>KeyError\<close> when no column is named \<open>k\<close>; when several are it is
  no Series, and the comparison fails (\<open>ValueError\<close> stands for that).
  \<open>astype(str)\<close> turns every cell into a string, the missing value into the text
  \<open><NA>\<close>, so that the \<open>fillna("")\<close> after it finds nothing to fill.
\<close>

definition cell_at :: "cell list \<Rightarrow> nat \<Rightarrow> cell" where
  "cell_at r i = (if i < length r then r ! i else None)"

fun index_of :: "pystr list \<Rightarrow> pystr \<Rightarrow> nat option" where
  "index_of [] k = None"
| "index_of (c # cs) k = (if c = k then Some 0 else map_option Suc (index_of cs k))"

definition column :: "frame \<Rightarrow> pystr \<Rightarrow> pyerr + cell list" where
  "column df k =
     (case index_of (columns df) k of
        None \<Rightarrow> Inl KeyError
      | Some i \<Rightarrow>
          if count_list (columns df) k > 1 then Inl ValueError
          else Inr (map (\<lambda>r. cell_at r i) (records df)))"

definition astype_str :: "cell \<Rightarrow> cell" where
  "astype_str c = (case c of None \<Rightarrow> Some [60, 78, 65, 62] | Some s \<Rightarrow> Some s)"

definition fillna_empty :: "cell \<Rightarrow> pystr" where
  "fillna_empty c = (case c of None \<Rightarrow> [] | Some s \<Rightarrow> s)"

fun key_mask :: "frame \<Rightarrow> pystr list \<Rightarrow> pyrecord \<Rightarrow> bool list \<Rightarrow> pyerr + bool list" where
  "key_mask df [] record msk = Inr msk"
| "key_mask df (k # ks) record msk =
     (case column df k of
        Inl e \<Rightarrow> Inl e
      | Inr col \<Rightarrow>
          key_mask df ks record
            (map2 (\<lambda>m c. m \<and> fillna_empty (astype_str c) = py_str (rget record k)) msk col))"


text \<open>\<open>mask[mask].index[0]\<close> when \<open>mask.any()\<close>.\<close>

fun first_true :: "bool list \<Rightarrow> nat option" where
  "first_true [] = None"
| "first_true (b # bs) = (if b then Some 0 else map_option Suc (first_true bs))"

text \<open>\<open>f"A{row_number}:{last}{row_number}"\<close>\<close>

definition a1_range :: "nat \<Rightarrow> pystr \<Rightarrow> pystr" where
  "a1_range row_number lastc = 65 # str_nat row_number @ 58 # lastc @ str_nat row_number"

text \<open>
  \<^verbatim>\<open>
  def upsert_row(sheet_name, key_cols, record):
      ws = ensure_worksheet(sheet_name)
      headers = _normalize_headers(ws, record)
      df = read_df(sheet_name)
      if df.empty:
          row = [record.get(h, "") for h in headers]
          ws.append_row(row)
          return
      mask = pd.Series([True] * len(df))
      for k in key_cols:
          mask &= (df[k].astype(str).fillna("") == str(record.get(k, "")))
      if mask.any():
          idx = mask[mask].index[0]
          row_number = idx + 2
          values = [[record.get(h, "") for h in headers]]
          ws.update(f"A{row_number}:{_col_letter(len(headers))}{row_number}", values)
      else:
          row = [record.get(h, "") for h in headers]
          ws.append_row(row)
  \<close>
  The outer option is \<open>None\<close> when the call does not return.
\<close>

definition upsert_row ::
  "pystr \<Rightarrow> pystr list \<Rightarrow> pyrecord \<Rightarrow> store \<Rightarrow> (pyerr + store) option" where
  "upsert_row sheet_name key_cols record st =
     (let (g, st1) = ensure_worksheet sheet_name [] st;
          (headers, g1) = normalize_headers g record;
          (df, st2) = read_df sheet_name (put_sheet sheet_name g1 st1);
          row = project record headers
      in if df_empty df then Some (Inr (put_sheet sheet_name (ws_append_row g1 row) st2))
         else
           (case key_mask df key_cols record (replicate (length (records df)) True) of
              Inl e \<Rightarrow> Some (Inl e)
            | Inr msk \<Rightarrow>
                (case first_true msk of
                   Some idx \<Rightarrow>
                     (case col_letter (int (length headers)) of
                        None \<Rightarrow> None
                      | Some lastc \<Rightarrow>
                          (case ws_update g1 (a1_range (idx + 2) lastc) row of
                             Inl e \<Rightarrow> Some (Inl e)
                           | Inr g2 \<Rightarrow> Some (Inr (put_sheet sheet_name g2 st2))))
                 | None \<Rightarrow> Some (Inr (put_sheet sheet_name (ws_append_row g1 row) st2)))))"

text \<open>
  \<^verbatim>\<open>
  def append_audit(log):
      headers = ['ts','device','zone','drug_code','field','old_value','new_value','user']
      ws = ensure_worksheet("Audit_Log", headers=headers)
      row = [log.get(h, "") for h in headers]
      ws.append_row(row)
  \<close>
\<close>

definition AUDIT_LOG :: pystr where
  "AUDIT_LOG = ascii ''Audit_Log''"

definition audit_headers :: "pystr list" where
  "audit_headers = map ascii [''ts'', ''device'', ''zone'', ''drug_code'', ''field'',
     ''old_value'', ''new_value'', ''user'']"

definition append_audit :: "pyrecord \<Rightarrow> store \<Rightarrow> store" where
  "append_audit log st =
     (let (g, st1) = ensure_worksheet AUDIT_LOG audit_headers st
      in put_sheet AUDIT_LOG (ws_append_row g (project log audit_headers)) st1)"

section \<open>pages/1: zone and ownership\<close>

definition UNCLASSIFIED :: pystr where
  "UNCLASSIFIED = [26410, 20998, 39006]"

definition is_ascii_letter :: "nat \<Rightarrow> bool" where
  "is_ascii_letter c = ((65 \<le> c \<and> c \<le> 90) \<or> (97 \<le> c \<and> c \<le> 122))"

definition upper_char :: "nat \<Rightarrow> nat" where
  "upper_char c = (if 97 \<le> c \<and> c \<le> 122 then c - 32 else c)"

text \<open>
  \<^verbatim>\<open>
  def extract_zone(loc: str) -> str:
      if not isinstance(loc, str):
          return "\<dots>"                       # the three characters of UNCLASSIFIED
      m = re.match(r"([A-Za-z])", loc.strip())
      return m.group(1).upper() if m else "\<dots>"
  \<close>
  The argument is a cell: \<open>None\<close> is a value that is not a \<open>str\<close>.
\<close>

definition extract_zone :: "cell \<Rightarrow> pystr" where
  "extract_zone loc =
     (case loc of
        None \<Rightarrow> UNCLASSIFIED
      | Some s \<Rightarrow>
          (case strip s of
             [] \<Rightarrow> UNCLASSIFIED
           | c # _ \<Rightarrow> if is_ascii_letter c then [upper_char c] else UNCLASSIFIED))"

text \<open>
  The zone as the specification words it, with no trimming: the first character when it
  is a letter, in upper case, and the unclassified zone otherwise.
\<close>

definition zone_as_claimed :: "cell \<Rightarrow> pystr" where
  "zone_as_claimed loc =
     (case loc of
        None \<Rightarrow> UNCLASSIFIED
      | Some [] \<Rightarrow> UNCLASSIFIED
      | Some (c # _) \<Rightarrow> if is_ascii_letter c then [upper_char c] else UNCLASSIFIED)"

text \<open>
  \<^verbatim>\<open>
  can_edit = (owner_existing.strip() == "") or (owner_existing.strip() == user.strip())
  \<close>
\<close>

definition can_edit :: "pystr \<Rightarrow> pystr \<Rightarrow> bool" where
  "can_edit owner_existing user =
     (strip owner_existing = [] \<or> strip owner_existing = strip user)"

section \<open>pages/1: the save and add handlers\<close>

text \<open>The column names of the page, \<open>COL_NAME\<close> to \<open>COL_TIME\<close>, as code points.\<close>

definition COL_NAME :: pystr where "COL_NAME = [34277, 21697, 21517, 31281]"
definition COL_LOC :: pystr where "COL_LOC = [20786, 20301]"
definition COL_QTY :: pystr where "COL_QTY = [30436, 40670, 25976, 37327]"
definition COL_OWNER :: pystr where "COL_OWNER = [30436, 40670, 20154]"
definition COL_NOTE :: pystr where "COL_NOTE = [20633, 35387]"
definition COL_TIME :: pystr where "COL_TIME = [30436, 40670, 26178, 38291]"

text \<open>The value of \<open>field\<close> in the audit record of a new item.\<close>

definition NEW_ITEM :: pystr where "NEW_ITEM = [26032, 22686, 38917, 30446]"

text \<open>
  \<^verbatim>\<open>
  device = (params.get("device", ["21"])[0]).strip()
  if any(device.endswith(suffix) for suffix in [s1, s2, s3]):
      sheet_name = f"{prefix}{device}"
  else:
      sheet_name = f"{prefix}{device}{s1}"
  \<close>
  with the prefix and the three suffixes of the source; \<open>device\<close> below is the
  stripped parameter.
\<close>

definition endswith :: "pystr \<Rightarrow> pystr \<Rightarrow> bool" where
  "endswith s suf = (take (length suf) (rev s) = rev suf)"

definition sheet_name_of :: "pystr \<Rightarrow> pystr" where
  "sheet_name_of device =
     (if list_ex (endswith device) [[21488], [21312], [36229, 24066]]
      then [20998, 34920, 45] @ device
      else [20998, 34920, 45] @ device @ [21488])"

text \<open>
  \<open>row.get(col, "")\<close> of a row of the frame, and \<open>x or ""\<close> of a cell: the truth
  value of \<open>pd.NA\<close> is not defined, Python raises \<open>TypeError\<close>.
\<close>

definition row_get :: "frame \<Rightarrow> cell list \<Rightarrow> pystr \<Rightarrow> cell" where
  "row_get df r k =
     (case index_of (columns df) k of None \<Rightarrow> Some [] | Some i \<Rightarrow> cell_at r i)"

definition or_empty :: "cell \<Rightarrow> pyerr + pystr" where
  "or_empty c = (case c of None \<Rightarrow> Inl TypeError | Some s \<Rightarrow> Inr s)"

text \<open>
  The body of the save button (lines 233 to 271), for the row whose \<open>name\<close>, \<open>loc\<close>
  and \<open>qty\<close> the loop holds; \<open>now\<close> is the formatted \<open>datetime.now()\<close>.
  \<^verbatim>\<open>
  key_cols = {COL_NAME: name, COL_LOC: loc}
  old_val = str(qty or "")
  new_val = str(new_qty)
  payload = {COL_NAME: name, COL_LOC: loc, COL_QTY: new_qty, COL_NOTE: new_note,
             COL_OWNER: user, COL_TIME: now}
  upsert_row(sheet_name, key_cols, payload)
  if old_val != new_val:
      append_audit({"ts": payload[COL_TIME], "device": device,
                    "zone": extract_zone(loc), "drug_code": name, "field": COL_QTY,
                    "old_value": old_val, "new_value": new_val, "user": user})
  st.cache_data.clear()
  \<close>
\<close>

definition save_payload :: "pystr \<Rightarrow> pystr \<Rightarrow> int \<Rightarrow> pystr \<Rightarrow> pystr \<Rightarrow> pystr \<Rightarrow> pyrecord" where
  "save_payload name loc new_qty new_note user now =
     [(COL_NAME, PStr name), (COL_LOC, PStr loc), (COL_QTY, PInt new_qty),
      (COL_NOTE, PStr new_note), (COL_OWNER, PStr user), (COL_TIME, PStr now)]"

definition audit_record ::
  "pystr \<Rightarrow> pystr \<Rightarrow> pystr \<Rightarrow> pystr \<Rightarrow> pystr \<Rightarrow> pystr \<Rightarrow> pystr \<Rightarrow> pystr \<Rightarrow> pyrecord" where
  "audit_record ts device zone drug_code field old_value new_value user =
     [(ascii ''ts'', PStr ts), (ascii ''device'', PStr device), (ascii ''zone'', PStr zone),
      (ascii ''drug_code'', PStr drug_code), (ascii ''field'', PStr field),
      (ascii ''old_value'', PStr old_value), (ascii ''new_value'', PStr new_value),
      (ascii ''user'', PStr user)]"

definition save_handler ::
  "pystr \<Rightarrow> pystr \<Rightarrow> pystr \<Rightarrow> pystr \<Rightarrow> pystr \<Rightarrow> cell \<Rightarrow> int \<Rightarrow> pystr \<Rightarrow> pystr \<Rightarrow> store
     \<Rightarrow> (pyerr + store) option" where
  "save_handler device sheet_name user name loc qty new_qty new_note now st =
     (case or_empty qty of
        Inl e \<Rightarrow> Some (Inl e)
      | Inr old_val \<Rightarrow>
          (let new_val = str_int new_qty;
               payload = save_payload name loc new_qty new_note user now
           in case upsert_row sheet_name [COL_NAME, COL_LOC] payload st of
                None \<Rightarrow> None
              | Some (Inl e) \<Rightarrow> Some (Inl e)
              | Some (Inr st1) \<Rightarrow>
                  Some (Inr (cache_clear
                    (if old_val \<noteq> new_val
                     then append_audit
                            (audit_record now device (extract_zone (Some loc)) name COL_QTY
                               old_val new_val user) st1
                     else st1)))))"

text \<open>
  One row of the loop over the frame (lines 185 to 193, then the button): the values of
  the row are read, \<open>can_edit\<close> is computed, and a click on the enabled button runs the
  handler. A disabled button does nothing.
  \<^verbatim>\<open>
  name = str(row.get(COL_NAME, "") or "")
  loc  = str(row.get(COL_LOC, "") or "")
  qty  = row.get(COL_QTY, "")
  note = str(row.get(COL_NOTE, "") or "")
  owner_existing = str(row.get(COL_OWNER, "") or "")
  time_existing  = str(row.get(COL_TIME, "") or "")
  can_edit = (owner_existing.strip() == "") or (owner_existing.strip() == user.strip())
  \<close>
\<close>

definition save_row ::
  "pystr \<Rightarrow> pystr \<Rightarrow> pystr \<Rightarrow> frame \<Rightarrow> cell list \<Rightarrow> int \<Rightarrow> pystr \<Rightarrow> pystr \<Rightarrow> store
     \<Rightarrow> (pyerr + store) option" where
  "save_row device sheet_name user df r new_qty new_note now st =
     (case or_empty (row_get df r COL_NAME) of
        Inl e \<Rightarrow> Some (Inl e)
      | Inr name \<Rightarrow>
     (case or_empty (row_get df r COL_LOC) of
        Inl e \<Rightarrow> Some (Inl e)
      | Inr loc \<Rightarrow>
     (case or_empty (row_get df r COL_NOTE) of
        Inl e \<Rightarrow> Some (Inl e)
      | Inr note \<Rightarrow>
     (case or_empty (row_get df r COL_OWNER) of
        Inl e \<Rightarrow> Some (Inl e)
      | Inr owner_existing \<Rightarrow>
     (case or_empty (row_get df r COL_TIME) of
        Inl e \<Rightarrow> Some (Inl e)
      | Inr time_existing \<Rightarrow>
          if can_edit owner_existing user
          then save_handler device sheet_name user name loc (row_get df r COL_QTY)
                 new_qty new_note now st
          else Some (Inr st))))))"

text \<open>
  The page reads the frame first (line 71), then shows its rows; \<open>page_save\<close> is a
  click on the save button of row \<open>i\<close> of the frame.
\<close>

definition page_save ::
  "pystr \<Rightarrow> pystr \<Rightarrow> nat \<Rightarrow> int \<Rightarrow> pystr \<Rightarrow> pystr \<Rightarrow> store \<Rightarrow> (pyerr + store) option" where
  "page_save device user i new_qty new_note now st =
     (let (df, st0) = read_df (sheet_name_of device) st
      in if i < length (records df)
         then save_row device (sheet_name_of device) user df (records df ! i)
                new_qty new_note now st0
         else Some (Inr st0))"

text \<open>
  The add button (lines 291 to 317).
  \<^verbatim>\<open>
  if not new_name or not new_loc:
      st.error(...)
  else:
      payload = {COL_NAME: new_name.strip(), COL_LOC: new_loc.strip(),
                 COL_QTY: int(new_qty_val), COL_NOTE: new_note_val.strip(),
                 COL_OWNER: user, COL_TIME: now}
      append_row(sheet_name, payload)
      append_audit({"ts": payload[COL_TIME], "device": device,
                    "zone": extract_zone(new_loc), "drug_code": new_name.strip(),
                    "field": NEW_ITEM, "old_value": "",
                    "new_value": f"{COL_QTY}={payload[COL_QTY]}", "user": user})
      st.cache_data.clear()
  \<close>
\<close>

definition add_item ::
  "pystr \<Rightarrow> pystr \<Rightarrow> pystr \<Rightarrow> pystr \<Rightarrow> int \<Rightarrow> pystr \<Rightarrow> pystr \<Rightarrow> store \<Rightarrow> store" where
  "add_item device user new_name new_loc new_qty_val new_note_val now st =
     (if new_name = [] \<or> new_loc = [] then st
      else
        (let payload = save_payload (strip new_name) (strip new_loc) new_qty_val
                         (strip new_note_val) user now;
             st1 = append_row (sheet_name_of device) payload st;
             st2 = append_audit
                     (audit_record now device (extract_zone (Some new_loc)) (strip new_name)
                        NEW_ITEM [] (COL_QTY @ 61 # str_int new_qty_val) user) st1
         in cache_clear st2))"

section \<open>Evaluation of the definitions\<close>

text \<open>The definitions that a run of the code on given values unfolds.\<close>

lemmas eval_defs = upsert_row_def ensure_worksheet_def normalize_headers_def first_row_def
  get_all_values_def used_rows_def blank_row_def ws_append_row_def width_def pad_def
  read_df_def read_sheet_def put_sheet_def project_def
  rget_def df_empty_def column_def cell_at_def astype_str_def fillna_empty_def blank_to_na_def
  ascii_def Let_def append_row_def append_audit_def cache_clear_def

lemmas page_defs = page_save_def save_row_def save_handler_def row_get_def or_empty_def
  sheet_name_of_def endswith_def can_edit_def strip_def py_isspace_def save_payload_def
  audit_record_def COL_NAME_def COL_LOC_def COL_QTY_def COL_OWNER_def COL_NOTE_def
  COL_TIME_def AUDIT_LOG_def audit_headers_def add_item_def NEW_ITEM_def

section \<open>Properties of the column letter\<close>

lemma label_value_snoc: "label_value (s @ [c]) = label_value s * 26 + (c - 64)"
  by (simp add: label_value_def)

lemma is_label_snoc: "is_label (s @ [c]) = (is_label s \<and> 65 \<le> c \<and> c \<le> 90)"
  by (simp add: is_label_def)

lemma col_letter_loop_nat:
  "\<exists>s. col_letter_loop (int n) acc = Some (s @ acc) \<and> is_label s \<and> label_value s = n"
proof (induction n arbitrary: acc rule: less_induct)
  case (less n)
  show ?case
  proof (cases "n = 0")
    case True
    have "col_letter_loop 0 acc = Some ([] @ acc)"
      by (subst col_letter_loop.simps) simp
    then show ?thesis
      using True by (auto simp: is_label_def label_value_def)
  next
    case False
    define m where "m = (n - 1) div 26"
    define c where "c = (n - 1) mod 26 + 65"
    have pred: "int n - 1 = int (n - 1)"
      using False by simp
    have mn: "m < n"
      using False unfolding m_def by (metis diff_less div_le_dividend le_less_trans not_gr_zero zero_less_one)
    have d: "(int n - 1) div 26 = int m"
      unfolding pred m_def by (simp add: zdiv_int)
    have r: "nat ((int n - 1) mod 26) + 65 = c"
      unfolding pred c_def by (simp add: nat_mod_distrib)
    from less.IH [OF mn, of "c # acc"] obtain s where
      s: "col_letter_loop (int m) (c # acc) = Some (s @ c # acc)" "is_label s" "label_value s = m"
      by blast
    have "col_letter_loop (int n) acc = col_letter_loop (int m) (c # acc)"
      using False by (subst col_letter_loop.simps) (simp add: d r)
    then have 1: "col_letter_loop (int n) acc = Some ((s @ [c]) @ acc)"
      using s(1) by simp
    have 2: "is_label (s @ [c])"
      using s(2) by (simp add: is_label_snoc c_def)
    have "m * 26 + ((n - 1) mod 26 + 1) = n"
      using False by (simp add: m_def)
    then have 3: "label_value (s @ [c]) = n"
      using s(3) by (simp add: label_value_snoc c_def)
    from 1 2 3 show ?thesis by blast
  qed
qed

lemma label_value_pos: "is_label s \<Longrightarrow> s \<noteq> [] \<Longrightarrow> 0 < label_value s"
proof (cases s rule: rev_cases)
  case Nil
  assume "s \<noteq> []"
  with Nil show ?thesis by simp
next
  case (snoc ys y)
  assume "is_label s"
  then have "65 \<le> y" using snoc by (simp add: is_label_snoc)
  then show ?thesis unfolding snoc label_value_snoc by simp
qed

lemma base26_unique:
  fixes a b x y :: nat
  assumes "a * 26 + x = b * 26 + y" "x < 26" "y < 26"
  shows "a = b \<and> x = y"
proof -
  have "(a * 26 + x) div 26 = a" "(b * 26 + y) div 26 = b"
    using assms(2,3) by simp_all
  then have "a = b" using assms(1) by simp
  then show ?thesis using assms(1) by simp
qed

lemma label_value_inj:
  "is_label s \<Longrightarrow> is_label t \<Longrightarrow> label_value s = label_value t \<Longrightarrow> s = t"
proof (induction s arbitrary: t rule: rev_induct)
  case Nil
  have "label_value [] = 0" by (simp add: label_value_def)
  then have "\<not> 0 < label_value t" using Nil.prems(3) by simp
  then have "t = []" using label_value_pos [OF Nil.prems(2)] by (cases "t = []") simp_all
  then show ?case by simp
next
  case (snoc c s)
  have "0 < label_value (s @ [c])"
    using label_value_pos [OF snoc.prems(1)] by simp
  then have "t \<noteq> []"
    using snoc.prems(3) by (auto simp: label_value_def)
  then obtain t' d where t: "t = t' @ [d]"
    by (cases t rule: rev_cases) auto
  have c: "65 \<le> c" "c \<le> 90" and ls: "is_label s"
    using snoc.prems(1) by (simp_all add: is_label_snoc)
  have d: "65 \<le> d" "d \<le> 90" and lt: "is_label t'"
    using snoc.prems(2) unfolding t by (simp_all add: is_label_snoc)
  have eq: "label_value s * 26 + (c - 64) = label_value t' * 26 + (d - 64)"
    using snoc.prems(3) unfolding t label_value_snoc .
  have c': "c - 64 = (c - 65) + 1" "c - 65 < 26" using c by simp_all
  have d': "d - 64 = (d - 65) + 1" "d - 65 < 26" using d by simp_all
  have "label_value s * 26 + (c - 65) = label_value t' * 26 + (d - 65)"
    using eq unfolding c'(1) d'(1) by simp
  from base26_unique [OF this c'(2) d'(2)]
  have "label_value s = label_value t'" "c - 65 = d - 65" by simp_all
  then have "s = t'" "c = d"
    using snoc.IH [OF ls lt] c(1) d(1) by simp_all
  then show ?case unfolding t by simp
qed



lemma str_nat_digits_set: "(\<forall>c\<in>set (str_nat n). is_digit c) \<and> str_nat n \<noteq> []"
proof (induction n rule: str_nat.induct)
  case (1 n)
  show ?case
  proof (cases "n < 10")
    case True
    then show ?thesis by (subst (1 2) str_nat.simps) (simp add: is_digit_def)
  next
    case False
    have "n mod 10 \<le> 9" by presburger
    with False 1 show ?thesis
      by (subst (1 2) str_nat.simps) (auto simp: is_digit_def)
  qed
qed

lemma str_nat_digits: "list_all is_digit (str_nat n) \<and> str_nat n \<noteq> []"
  using str_nat_digits_set [of n] by (simp add: list_all_iff)

lemma digits_value_snoc: "digits_value (s @ [c]) = digits_value s * 10 + (c - 48)"
  by (simp add: digits_value_def)

lemma digits_value_str_nat: "digits_value (str_nat n) = n"
proof (induction n rule: str_nat.induct)
  case (1 n)
  show ?case
  proof (cases "n < 10")
    case True
    then show ?thesis by (subst str_nat.simps) (simp add: digits_value_def)
  next
    case False
    then show ?thesis
      using 1 by (subst str_nat.simps) (simp add: digits_value_snoc)
  qed
qed



lemma digit_not_upper: "is_digit c \<Longrightarrow> \<not> is_upper c"
  by (simp add: is_digit_def is_upper_def)

lemma a1_cell_label:
  assumes "is_label s"
  shows "a1_cell (s @ str_nat r) = Some (label_value s, r)"
proof -
  obtain d ds where d: "str_nat r = d # ds"
    using str_nat_digits [of r] by (cases "str_nat r") auto
  have nd: "\<not> is_upper d"
    using str_nat_digits [of r] d by (simp add: digit_not_upper)
  have up: "\<forall>c\<in>set s. is_upper c"
    using assms by (simp add: is_label_def is_upper_def list_all_iff)
  have tw: "takeWhile is_upper (s @ d # ds) = s"
    using up nd by (simp add: takeWhile_tail)
  have dw: "dropWhile is_upper (s @ d # ds) = d # ds"
    using up nd by (simp add: dropWhile_append3)
  show ?thesis
    using str_nat_digits [of r] digits_value_str_nat [of r]
    by (simp add: a1_cell_def d tw dw Let_def)
qed

lemma a1_parse_range:
  assumes "is_label s"
  shows "a1_parse (a1_range r s) = Some ((1, r), (label_value s, r))"
proof -
  have nc: "\<forall>c\<in>set (65 # str_nat r). c \<noteq> 58"
    using str_nat_digits [of r] by (auto simp: list_all_iff is_digit_def)
  have split: "a1_range r s = (65 # str_nat r) @ 58 # (s @ str_nat r)"
    by (simp add: a1_range_def)
  have tw: "takeWhile (\<lambda>c. c \<noteq> 58) (a1_range r s) = 65 # str_nat r"
    unfolding split using nc by (subst takeWhile_append2) auto
  have dw: "dropWhile (\<lambda>c. c \<noteq> 58) (a1_range r s) = 58 # (s @ str_nat r)"
    unfolding split using nc by (subst dropWhile_append2) auto
  have a: "a1_cell (65 # str_nat r) = Some (1, r)"
    using a1_cell_label [of "[65]" r] by (simp add: is_label_def label_value_def)
  show ?thesis
    by (simp add: a1_parse_def tw dw a a1_cell_label [OF assms])
qed

lemma col_letter_nat:
  "\<exists>s. col_letter (int m) = Some s \<and> is_label s \<and> label_value s = m"
  using col_letter_loop_nat [of m "[]"] by (simp add: col_letter_def)

lemma col_letter_examples:
  "col_letter 0 = Some []" "col_letter 1 = Some (ascii ''A'')"
  "col_letter 26 = Some (ascii ''Z'')" "col_letter 27 = Some (ascii ''AA'')"
  "col_letter 53 = Some (ascii ''BA'')"
  by (simp_all add: col_letter_def col_letter_loop.simps ascii_def)

lemma write_row_length: "length (write_row g r 0 vals) = max (length g) (Suc r)"
  by (simp add: write_row_def Let_def)

lemma write_row_nth_same:
  "write_row g r 0 vals ! r = vals @ drop (length vals) (if r < length g then g ! r else [])"
  by (simp add: write_row_def Let_def pad_def nth_append)

lemma write_row_nth_other:
  "j \<noteq> r \<Longrightarrow> j < length g \<Longrightarrow> write_row g r 0 vals ! j = g ! j"
  by (simp add: write_row_def Let_def nth_append)

lemma ws_update_first_columns:
  assumes "is_label lastc" "label_value lastc = length vals"
  shows "ws_update g (a1_range (idx + 2) lastc) vals = Inr (write_row g (Suc idx) 0 vals)"
  using assms by (simp add: ws_update_def a1_parse_range)

lemma upsert_row_hit:
  assumes "ensure_worksheet name [] st = (g, st1)"
    and "normalize_headers g record = (headers, g1)"
    and "read_df name (put_sheet name g1 st1) = (df, st2)"
    and "\<not> df_empty df"
    and "key_mask df key_cols record (replicate (length (records df)) True) = Inr msk"
    and "first_true msk = Some idx"
  shows "\<exists>lastc. col_letter (int (length headers)) = Some lastc
           \<and> a1_parse (a1_range (idx + 2) lastc) = Some ((1, idx + 2), (length headers, idx + 2))
           \<and> ws_update g1 (a1_range (idx + 2) lastc) (project record headers)
               = Inr (write_row g1 (Suc idx) 0 (project record headers))
           \<and> upsert_row name key_cols record st
               = Some (Inr (put_sheet name (write_row g1 (Suc idx) 0 (project record headers)) st2))"
proof -
  obtain lastc where lc: "col_letter (int (length headers)) = Some lastc" "is_label lastc"
    "label_value lastc = length headers"
    using col_letter_nat [of "length headers"] by blast
  have p: "a1_parse (a1_range (idx + 2) lastc) = Some ((1, idx + 2), (length headers, idx + 2))"
    using a1_parse_range [OF lc(2), of "idx + 2"] lc(3) by simp
  have v: "label_value lastc = length (project record headers)"
    using lc(3) by (simp add: project_def)
  have u: "ws_update g1 (a1_range (idx + 2) lastc) (project record headers)
               = Inr (write_row g1 (Suc idx) 0 (project record headers))"
    using lc(2) v by (rule ws_update_first_columns)
  have r: "upsert_row name key_cols record st
               = Some (Inr (put_sheet name (write_row g1 (Suc idx) 0 (project record headers)) st2))"
    using assms(4) by (simp add: upsert_row_def assms(1,2,3,5,6) lc(1) u [unfolded add_2_eq_Suc'])
  from lc(1) p u r show ?thesis by blast
qed

text \<open>
  Claim C10. For every \<open>n \<ge> 0\<close> the column-letter helper returns, and what it returns is
  the label of column \<open>n\<close> in bijective base 26: it is made of the letters \<open>A..Z\<close>, its
  value as a numeral with the digits \<open>1..26\<close> is \<open>n\<close>, and no other label has that value.
  So \<open>1\<close> gives \<open>A\<close>, \<open>26\<close> gives \<open>Z\<close>, \<open>27\<close> gives \<open>AA\<close>, \<open>53\<close> gives \<open>BA\<close>, and \<open>0\<close>
  gives the empty string. The range that \<open>upsert_row\<close> writes on a hit, read in A1
  notation, goes from column 1 to column \<open>len(headers)\<close> of row \<open>idx + 2\<close>. Whenever
  \<open>upsert_row\<close> finds a row, at index \<open>i\<close> of the frame it read, the call returns, and
  the sheet it leaves is the sheet with that update done: in row \<open>i + 2\<close> of the sheet the
  first \<open>len(headers)\<close> cells are the values of the record under the headers, the cells
  after them are the cells that were there, and every other row is as it was.
\<close>

theorem col_letter_bijective_base26:
  "col_letter 0 = Some []
   \<and> col_letter 1 = Some (ascii ''A'') \<and> col_letter 26 = Some (ascii ''Z'')
   \<and> col_letter 27 = Some (ascii ''AA'') \<and> col_letter 53 = Some (ascii ''BA'')
   \<and> (0 \<le> n \<longrightarrow>
        (\<exists>s. col_letter n = Some s \<and> is_label s \<and> int (label_value s) = n
           \<and> (\<forall>t. is_label t \<and> int (label_value t) = n \<longrightarrow> t = s)))
   \<and> (\<exists>lastc. col_letter (int (length (headers :: pystr list))) = Some lastc
         \<and> a1_parse (a1_range (idx + 2) lastc)
             = Some ((1, idx + 2), (length headers, idx + 2)))
   \<and> (ensure_worksheet name [] st = (g, st1)
        \<and> normalize_headers g rcd = (hs, g1)
        \<and> read_df name (put_sheet name g1 st1) = (df, st2)
        \<and> \<not> df_empty df
        \<and> key_mask df key_cols rcd (replicate (length (records df)) True) = Inr msk
        \<and> first_true msk = Some i
      \<longrightarrow> (\<exists>lastc. col_letter (int (length hs)) = Some lastc
             \<and> ws_update g1 (a1_range (i + 2) lastc) (project rcd hs)
                 = Inr (write_row g1 (Suc i) 0 (project rcd hs)))
        \<and> upsert_row name key_cols rcd st
            = Some (Inr (put_sheet name (write_row g1 (Suc i) 0 (project rcd hs)) st2))
        \<and> take (length hs) (write_row g1 (Suc i) 0 (project rcd hs) ! Suc i)
            = project rcd hs
        \<and> drop (length hs) (write_row g1 (Suc i) 0 (project rcd hs) ! Suc i)
            = drop (length hs) (if Suc i < length g1 then g1 ! Suc i else [])
        \<and> (\<forall>j. j \<noteq> Suc i \<and> j < length g1
              \<longrightarrow> write_row g1 (Suc i) 0 (project rcd hs) ! j = g1 ! j))"
proof -
  have a: "0 \<le> n \<longrightarrow>
        (\<exists>s. col_letter n = Some s \<and> is_label s \<and> int (label_value s) = n
           \<and> (\<forall>t. is_label t \<and> int (label_value t) = n \<longrightarrow> t = s))"
  proof
    assume "0 \<le> n"
    then obtain m where m: "n = int m" by (rule nonneg_int_cases)
    from col_letter_nat [of m] obtain s where
      s: "col_letter (int m) = Some s" "is_label s" "label_value s = m"
      by blast
    have u: "\<forall>t. is_label t \<and> int (label_value t) = n \<longrightarrow> t = s"
    proof (intro allI impI)
      fix t assume t: "is_label t \<and> int (label_value t) = n"
      then have "label_value t = label_value s" using s(3) m by simp
      then show "t = s" using label_value_inj [of t s] t s(2) by simp
    qed
    have 1: "col_letter n = Some s" using s(1) m by simp
    have 2: "int (label_value s) = n" using s(3) m by simp
    from 1 s(2) 2 u
    have "col_letter n = Some s \<and> is_label s \<and> int (label_value s) = n
           \<and> (\<forall>t. is_label t \<and> int (label_value t) = n \<longrightarrow> t = s)"
      by (intro conjI)
    then show "\<exists>s. col_letter n = Some s \<and> is_label s \<and> int (label_value s) = n
           \<and> (\<forall>t. is_label t \<and> int (label_value t) = n \<longrightarrow> t = s)" ..
  qed
  have b: "\<exists>lastc. col_letter (int (length headers)) = Some lastc
         \<and> a1_parse (a1_range (idx + 2) lastc)
             = Some ((1, idx + 2), (length headers, idx + 2))"
  proof -
    from col_letter_nat [of "length headers"] obtain s where
      s: "col_letter (int (length headers)) = Some s" "is_label s"
         "label_value s = length headers"
      by blast
    have "col_letter (int (length headers)) = Some s
         \<and> a1_parse (a1_range (idx + 2) s)
             = Some ((1, idx + 2), (length headers, idx + 2))"
      using s(1,3) a1_parse_range [OF s(2), of "idx + 2"] by simp
    then show ?thesis ..
  qed
  have c: "ensure_worksheet name [] st = (g, st1)
        \<and> normalize_headers g rcd = (hs, g1)
        \<and> read_df name (put_sheet name g1 st1) = (df, st2)
        \<and> \<not> df_empty df
        \<and> key_mask df key_cols rcd (replicate (length (records df)) True) = Inr msk
        \<and> first_true msk = Some i
      \<longrightarrow> (\<exists>lastc. col_letter (int (length hs)) = Some lastc
             \<and> ws_update g1 (a1_range (i + 2) lastc) (project rcd hs)
                 = Inr (write_row g1 (Suc i) 0 (project rcd hs)))
        \<and> upsert_row name key_cols rcd st
            = Some (Inr (put_sheet name (write_row g1 (Suc i) 0 (project rcd hs)) st2))
        \<and> take (length hs) (write_row g1 (Suc i) 0 (project rcd hs) ! Suc i)
            = project rcd hs
        \<and> drop (length hs) (write_row g1 (Suc i) 0 (project rcd hs) ! Suc i)
            = drop (length hs) (if Suc i < length g1 then g1 ! Suc i else [])
        \<and> (\<forall>j. j \<noteq> Suc i \<and> j < length g1
              \<longrightarrow> write_row g1 (Suc i) 0 (project rcd hs) ! j = g1 ! j)"
  proof
    assume h: "ensure_worksheet name [] st = (g, st1)
        \<and> normalize_headers g rcd = (hs, g1)
        \<and> read_df name (put_sheet name g1 st1) = (df, st2)
        \<and> \<not> df_empty df
        \<and> key_mask df key_cols rcd (replicate (length (records df)) True) = Inr msk
        \<and> first_true msk = Some i"
    then have h1: "ensure_worksheet name [] st = (g, st1)"
      and h2: "normalize_headers g rcd = (hs, g1)"
      and h3: "read_df name (put_sheet name g1 st1) = (df, st2)"
      and h4: "\<not> df_empty df"
      and h5: "key_mask df key_cols rcd (replicate (length (records df)) True) = Inr msk"
      and h6: "first_true msk = Some i"
      by simp_all
    from h1 h2 h3 h4 h5 h6
    have "\<exists>lastc. col_letter (int (length hs)) = Some lastc
           \<and> a1_parse (a1_range (i + 2) lastc) = Some ((1, i + 2), (length hs, i + 2))
           \<and> ws_update g1 (a1_range (i + 2) lastc) (project rcd hs)
               = Inr (write_row g1 (Suc i) 0 (project rcd hs))
           \<and> upsert_row name key_cols rcd st
               = Some (Inr (put_sheet name (write_row g1 (Suc i) 0 (project rcd hs)) st2))"
      by (rule upsert_row_hit)
    then have 1: "\<exists>lastc. col_letter (int (length hs)) = Some lastc
             \<and> ws_update g1 (a1_range (i + 2) lastc) (project rcd hs)
                 = Inr (write_row g1 (Suc i) 0 (project rcd hs))"
      and 2: "upsert_row name key_cols rcd st
            = Some (Inr (put_sheet name (write_row g1 (Suc i) 0 (project rcd hs)) st2))"
      by blast+
    have l: "length (project rcd hs) = length hs" by (simp add: project_def)
    have 3: "take (length hs) (write_row g1 (Suc i) 0 (project rcd hs) ! Suc i)
            = project rcd hs"
      unfolding write_row_nth_same using l by simp
    have 4: "drop (length hs) (write_row g1 (Suc i) 0 (project rcd hs) ! Suc i)
            = drop (length hs) (if Suc i < length g1 then g1 ! Suc i else [])"
      unfolding write_row_nth_same using l by simp
    have 5: "\<forall>j. j \<noteq> Suc i \<and> j < length g1
              \<longrightarrow> write_row g1 (Suc i) 0 (project rcd hs) ! j = g1 ! j"
      by (simp add: write_row_nth_other)
    from 1 2 3 4 5 show "(\<exists>lastc. col_letter (int (length hs)) = Some lastc
             \<and> ws_update g1 (a1_range (i + 2) lastc) (project rcd hs)
                 = Inr (write_row g1 (Suc i) 0 (project rcd hs)))
        \<and> upsert_row name key_cols rcd st
            = Some (Inr (put_sheet name (write_row g1 (Suc i) 0 (project rcd hs)) st2))
        \<and> take (length hs) (write_row g1 (Suc i) 0 (project rcd hs) ! Suc i)
            = project rcd hs
        \<and> drop (length hs) (write_row g1 (Suc i) 0 (project rcd hs) ! Suc i)
            = drop (length hs) (if Suc i < length g1 then g1 ! Suc i else [])
        \<and> (\<forall>j. j \<noteq> Suc i \<and> j < length g1
              \<longrightarrow> write_row g1 (Suc i) 0 (project rcd hs) ! j = g1 ! j)"
      by (intro conjI)
  qed
  from col_letter_examples a b c show ?thesis
    by (intro conjI)
qed

theorem col_letter_bijective_base26_witness:
  "col_letter 703 = Some (ascii ''AAA'') \<and> int (label_value (ascii ''AAA'')) = 703
   \<and> a1_parse (a1_range 5 (ascii ''C'')) = Some ((1, 5), (3, 5))
   \<and> map_option (map_sum id (\<lambda>s. sheets s (ascii ''T'')))
        (upsert_row (ascii ''T'') [ascii ''k'']
           [(ascii ''k'', PStr (ascii ''b'')), (ascii ''v'', PInt 9)]
           \<lparr>sheets = [ascii ''T'' \<mapsto> [[ascii ''k'', ascii ''v''], [ascii ''a'', ascii ''1''],
                                      [ascii ''b'', ascii ''2'']]],
            cache = Map.empty\<rparr>)
      = Some (Inr (Some [[ascii ''k'', ascii ''v''], [ascii ''a'', ascii ''1''],
                         [ascii ''b'', ascii ''9'']]))"
proof -
  let ?G = "[[ascii ''k'', ascii ''v''], [ascii ''a'', ascii ''1''], [ascii ''b'', ascii ''2'']]"
  let ?S = "\<lparr>sheets = [ascii ''T'' \<mapsto> ?G], cache = Map.empty\<rparr>"
  let ?R = "[(ascii ''k'', PStr (ascii ''b'')), (ascii ''v'', PInt 9)]"
  let ?df = "Frame [ascii ''k'', ascii ''v'']
               [[Some (ascii ''a''), Some (ascii ''1'')], [Some (ascii ''b''), Some (ascii ''2'')]]"
  let ?S2 = "\<lparr>sheets = [ascii ''T'' \<mapsto> ?G], cache = [ascii ''T'' \<mapsto> ?df]\<rparr>"
  have e: "col_letter 703 = Some (ascii ''AAA'')" "col_letter 3 = Some (ascii ''C'')"
    by (simp_all add: col_letter_def col_letter_loop.simps ascii_def)
  have p: "(0::int) \<le> 703" by simp
  note th0 = col_letter_bijective_base26 [where n = 703 and headers = "[[], [], []]"
      and idx = 3 and name = "ascii ''T''" and st = "?S" and g = "?G" and ?st1.0 = "?S"
      and rcd = "?R" and hs = "[ascii ''k'', ascii ''v'']" and ?g1.0 = "?G" and df = "?df"
      and ?st2.0 = "?S2" and key_cols = "[ascii ''k'']" and msk = "[False, True]" and i = 1]
  note a = th0 [THEN conjunct2, THEN conjunct2, THEN conjunct2, THEN conjunct2,
    THEN conjunct2, THEN conjunct1, rule_format, OF p]
  note b = th0 [THEN conjunct2, THEN conjunct2, THEN conjunct2, THEN conjunct2,
    THEN conjunct2, THEN conjunct2, THEN conjunct1]
  note c = th0 [THEN conjunct2, THEN conjunct2, THEN conjunct2, THEN conjunct2,
    THEN conjunct2, THEN conjunct2, THEN conjunct2, rule_format]
  from a obtain s where s: "col_letter 703 = Some s" "int (label_value s) = 703"
    by blast
  from s(1) e(1) have "s = ascii ''AAA''" by simp
  with s(2) have 1: "int (label_value (ascii ''AAA'')) = 703" by simp
  from b obtain l where l: "col_letter (int (length [[], [], [] :: pystr])) = Some l"
    "a1_parse (a1_range (3 + 2) l) = Some ((1, 3 + 2), (length [[], [], [] :: pystr], 3 + 2))"
    by blast
  from l(1) e(2) have "l = ascii ''C''" by simp
  with l(2) have 2: "a1_parse (a1_range 5 (ascii ''C'')) = Some ((1, 5), (3, 5))" by simp
  have h1: "ensure_worksheet (ascii ''T'') [] ?S = (?G, ?S)"
    by (simp add: ensure_worksheet_def)
  have h2: "normalize_headers ?G ?R = ([ascii ''k'', ascii ''v''], ?G)"
    by (simp add: eval_defs)
  have h3: "read_df (ascii ''T'') (put_sheet (ascii ''T'') ?G ?S) = (?df, ?S2)"
    by (simp add: eval_defs)
  have h4: "\<not> df_empty ?df" by (simp add: df_empty_def)
  have h5: "key_mask ?df [ascii ''k''] ?R (replicate (length (records ?df)) True)
            = Inr [False, True]"
    by (simp add: eval_defs numeral_2_eq_2)
  have h6: "first_true [False, True] = Some 1" by simp
  from h1 h2 h3 h4 h5 h6 have h: "ensure_worksheet (ascii ''T'') [] ?S = (?G, ?S)
        \<and> normalize_headers ?G ?R = ([ascii ''k'', ascii ''v''], ?G)
        \<and> read_df (ascii ''T'') (put_sheet (ascii ''T'') ?G ?S) = (?df, ?S2)
        \<and> \<not> df_empty ?df
        \<and> key_mask ?df [ascii ''k''] ?R (replicate (length (records ?df)) True)
            = Inr [False, True]
        \<and> first_true [False, True] = Some 1"
    by (intro conjI)
  note u = c [OF h, THEN conjunct2, THEN conjunct1]
  have w: "write_row ?G (Suc 1) 0 (project ?R [ascii ''k'', ascii ''v''])
           = [[ascii ''k'', ascii ''v''], [ascii ''a'', ascii ''1''], [ascii ''b'', ascii ''9'']]"
    by (simp add: write_row_def pad_def project_def rget_def str_int_def
        str_nat.simps [of 9] ascii_def)
  have 3: "map_option (map_sum id (\<lambda>s. sheets s (ascii ''T'')))
        (upsert_row (ascii ''T'') [ascii ''k''] ?R ?S)
      = Some (Inr (Some [[ascii ''k'', ascii ''v''], [ascii ''a'', ascii ''1''],
                         [ascii ''b'', ascii ''9'']]))"
    unfolding u w by (simp add: put_sheet_def)
  from e(1) 1 2 3 show ?thesis by (intro conjI)
qed

section \<open>Properties of the zone\<close>

text \<open>
  Claim C7, as amended. The zone of a location is the zone the specification describes, of
  the location with surrounding white space removed: the first character of the trimmed
  string in upper case when it is a letter \<open>A..Z\<close> or \<open>a..z\<close>, and the unclassified zone
  when the location is missing, empty or starts otherwise after trimming. \<open>B01\<close> gives
  \<open>B\<close>; the empty string and \<open>7x\<close> give the unclassified zone.
\<close>

theorem extract_zone_trimmed:
  "extract_zone loc = zone_as_claimed (map_option strip loc)
   \<and> extract_zone None = UNCLASSIFIED
   \<and> extract_zone (Some []) = UNCLASSIFIED
   \<and> extract_zone (Some (ascii ''B01'')) = ascii ''B''
   \<and> extract_zone (Some (ascii ''7x'')) = UNCLASSIFIED"
proof -
  have g: "extract_zone loc = zone_as_claimed (map_option strip loc)"
    by (cases loc) (simp_all add: extract_zone_def zone_as_claimed_def split: list.splits)
  have x: "extract_zone None = UNCLASSIFIED" "extract_zone (Some []) = UNCLASSIFIED"
    "extract_zone (Some (ascii ''B01'')) = ascii ''B''"
    "extract_zone (Some (ascii ''7x'')) = UNCLASSIFIED"
    by (simp_all add: extract_zone_def strip_def py_isspace_def ascii_def
        is_ascii_letter_def upper_char_def)
  from g x show ?thesis by (intro conjI)
qed

text \<open>
  Claim C7 as it is stated fails on a location with a leading space: \<open>" B01"\<close> has no
  leading letter, and the code answers \<open>B\<close>, because it trims before it matches.
\<close>

theorem extract_zone_leading_space_counterexample:
  "extract_zone (Some (ascii '' B01'')) = ascii ''B''
   \<and> zone_as_claimed (Some (ascii '' B01'')) = UNCLASSIFIED
   \<and> extract_zone (Some (ascii '' B01'')) \<noteq> zone_as_claimed (Some (ascii '' B01''))"
  by (simp add: extract_zone_def zone_as_claimed_def strip_def py_isspace_def ascii_def
      is_ascii_letter_def upper_char_def UNCLASSIFIED_def)

section \<open>The code at concrete inputs\<close>

text \<open>
  Claim C2 says that a blank stored value counts as the empty string when the key is
  compared. In the code \<open>astype(str)\<close> comes before \<open>fillna("")\<close>: the blank cell, read as
  \<open>pd.NA\<close>, is compared as the text \<open><NA>\<close>. The table below has the row \<open>Aspirin\<close> with
  a blank location; an upsert of the record with name \<open>Aspirin\<close> and empty location, on
  the key name and location, finds no row and adds a second one.
\<close>

theorem upsert_blank_key_appends:
  "map_option (map_sum id (\<lambda>s. sheets s (ascii ''T'')))
     (upsert_row (ascii ''T'') [ascii ''name'', ascii ''loc'']
        [(ascii ''name'', PStr (ascii ''Aspirin'')), (ascii ''loc'', PStr [])]
        \<lparr>sheets = [ascii ''T'' \<mapsto> [[ascii ''name'', ascii ''loc''], [ascii ''Aspirin'', []]]],
         cache = Map.empty\<rparr>)
   = Some (Inr (Some [[ascii ''name'', ascii ''loc''], [ascii ''Aspirin'', []],
                      [ascii ''Aspirin'', []]]))"
  by (simp add: eval_defs)

text \<open>
  Claim C6 starts from a row with name \<open>Aspirin\<close>, location \<open>B01\<close>, and empty quantity and
  operator. Read from the sheet, the two empty cells are \<open>pd.NA\<close>. The loop of the page
  evaluates \<open>row.get(COL_OWNER, "") or ""\<close> and raises \<open>TypeError\<close> before the button exists;
  the handler itself evaluates \<open>qty or ""\<close> and raises the same. Nothing is written.
\<close>

theorem save_blank_cells_raises:
  "page_save (ascii ''21'') (ascii ''Bob'') 0 12 [] (ascii ''2024-01-01 10:00:00'')
     \<lparr>sheets = [sheet_name_of (ascii ''21'') \<mapsto>
                  [[COL_NAME, COL_LOC, COL_QTY, COL_OWNER],
                   [ascii ''Aspirin'', ascii ''B01'', [], []]]],
      cache = Map.empty\<rparr>
   = Some (Inl TypeError)
   \<and> save_handler (ascii ''21'') (sheet_name_of (ascii ''21'')) (ascii ''Bob'')
        (ascii ''Aspirin'') (ascii ''B01'') None 12 [] (ascii ''2024-01-01 10:00:00'')
        \<lparr>sheets = [sheet_name_of (ascii ''21'') \<mapsto>
                  [[COL_NAME, COL_LOC, COL_QTY, COL_OWNER],
                   [ascii ''Aspirin'', ascii ''B01'', [], []]]],
         cache = Map.empty\<rparr>
   = Some (Inl TypeError)"
  by (simp add: eval_defs page_defs)

text \<open>
  Claim C8 says that a row whose stored operator is blank can be edited by every operator.
  The comparison of \<open>can_edit\<close> does say so, but the page never reaches it. When the
  sheet has the operator column, a blank cell of it is read as \<open>pd.NA\<close>, and line 189,
  \<open>str(row.get(COL_OWNER, "") or "")\<close>, takes the truth value of \<open>pd.NA\<close> and raises
  \<open>TypeError\<close>. On the sheet below the row of \<open>Aspirin\<close> has a quantity and no operator:
  whoever the operator of the session is, the row is not shown as editable, the page
  stops.
\<close>

theorem blank_owner_cell_raises:
  "page_save (ascii ''21'') user 0 new_qty new_note now
     \<lparr>sheets = [sheet_name_of (ascii ''21'') \<mapsto>
                  [[COL_NAME, COL_LOC, COL_QTY, COL_OWNER],
                   [ascii ''Aspirin'', ascii ''B01'', ascii ''5'', []]]],
      cache = Map.empty\<rparr>
   = Some (Inl TypeError)
   \<and> save_row (ascii ''21'') (sheet_name_of (ascii ''21'')) user
        (Frame [COL_NAME, COL_LOC, COL_QTY, COL_OWNER]
           [[Some (ascii ''Aspirin''), Some (ascii ''B01''), Some (ascii ''5''), None]])
        [Some (ascii ''Aspirin''), Some (ascii ''B01''), Some (ascii ''5''), None]
        new_qty new_note now st
     = Some (Inl TypeError)
   \<and> fst (read_df (sheet_name_of (ascii ''21''))
        \<lparr>sheets = [sheet_name_of (ascii ''21'') \<mapsto>
                  [[COL_NAME, COL_LOC, COL_QTY, COL_OWNER],
                   [ascii ''Aspirin'', ascii ''B01'', ascii ''5'', []]]],
         cache = Map.empty\<rparr>)
     = Frame [COL_NAME, COL_LOC, COL_QTY, COL_OWNER]
         [[Some (ascii ''Aspirin''), Some (ascii ''B01''), Some (ascii ''5''), None]]
   \<and> can_edit [] user"
  by (simp add: eval_defs page_defs)

section \<open>Properties of the header row\<close>

lemma width_Nil [simp]: "width [] = 0"
  by (simp add: width_def)

lemma width_Cons [simp]: "width (r # g) = max (length r) (width g)"
  by (simp add: width_def)

lemma width_append [simp]: "width (g @ h) = max (width g) (width h)"
  by (induction g) simp_all


lemma width_drop1: "width (drop 1 g) \<le> width g"
  by (cases g) simp_all

lemma length_pad [simp]: "length (pad w r) = max w (length r)"
  by (simp add: pad_def)

lemma pad_id: "w \<le> length r \<Longrightarrow> pad w r = r"
  by (simp add: pad_def)

lemma used_rows_Nil [simp]: "used_rows [] = []"
  by (simp add: used_rows_def)

lemma used_rows_eq_Nil: "used_rows g = [] \<longleftrightarrow> (\<forall>r\<in>set g. blank_row r)"
  by (simp add: used_rows_def dropWhile_eq_Nil_conv)

lemma used_rows_snoc:
  "used_rows (g @ [r]) = (if blank_row r then used_rows g else g @ [r])"
  by (simp add: used_rows_def)

lemma used_rows_Cons:
  "used_rows (r # g)
   = (if used_rows g = [] then (if blank_row r then [] else [r]) else r # used_rows g)"
proof (cases "used_rows g = []")
  case True
  then have "\<forall>x\<in>set (rev g). blank_row x" by (simp add: used_rows_eq_Nil)
  then have "dropWhile blank_row (rev g @ [r]) = dropWhile blank_row [r]"
    by (simp add: dropWhile_append)
  then show ?thesis using True by (simp add: used_rows_def del: dropWhile_eq_Nil_conv)
next
  case False
  then have "\<not> (\<forall>x\<in>set (rev g). blank_row x)" by (simp add: used_rows_eq_Nil)
  then have "dropWhile blank_row (rev g @ [r]) = dropWhile blank_row (rev g) @ [r]"
    by (simp add: dropWhile_append)
  then show ?thesis using False by (simp add: used_rows_def del: dropWhile_eq_Nil_conv)
qed

lemma used_rows_drop1: "used_rows (drop 1 g) = drop 1 (used_rows g)"
  by (cases g) (simp_all add: used_rows_Cons)

lemma used_rows_idem [simp]: "used_rows (used_rows g) = used_rows g"
proof (induction g rule: rev_induct)
  case Nil show ?case by simp
next
  case (snoc r g) then show ?case by (simp add: used_rows_snoc)
qed

lemma length_get_all_values [simp]: "length (get_all_values g) = length (used_rows g)"
  by (simp add: get_all_values_def)

lemma first_row_blank: "used_rows g = [] \<Longrightarrow> first_row g = []"
  by (simp add: first_row_def get_all_values_def)

lemma first_row_used:
  "used_rows g = r # u \<Longrightarrow> first_row g = pad (max (length r) (width u)) r"
  by (simp add: first_row_def get_all_values_def)

lemma length_first_row: "used_rows g \<noteq> [] \<Longrightarrow> length (first_row g) = width (used_rows g)"
  by (cases "used_rows g") (simp_all add: first_row_used)

lemma first_row_Nil [simp]: "first_row [] = []"
  by (simp add: first_row_blank)

lemma width_used_drop1: "width (used_rows (drop 1 g)) \<le> length (first_row g)"
proof (cases "used_rows g = []")
  case True then show ?thesis unfolding used_rows_drop1 by simp
next
  case False
  then have "length (first_row g) = width (used_rows g)" by (rule length_first_row)
  then show ?thesis unfolding used_rows_drop1 using width_drop1 [of "used_rows g"] by simp
qed

lemma first_row_new_header:
  assumes "\<not> blank_row (first_row g @ m)"
  shows "first_row ((first_row g @ m) # drop 1 g) = first_row g @ m"
proof -
  have u: "used_rows ((first_row g @ m) # drop 1 g) = (first_row g @ m) # used_rows (drop 1 g)"
    using assms by (simp add: used_rows_Cons)
  have "width (used_rows (drop 1 g)) \<le> length (first_row g @ m)"
    using width_used_drop1 [of g] by simp
  then show ?thesis
    unfolding first_row_used [OF u] by (simp add: pad_id)
qed

lemma columns_read_sheet:
  "columns (read_sheet name st) = (case sheets st name of None \<Rightarrow> [] | Some g \<Rightarrow> first_row g)"
  by (simp add: read_sheet_def first_row_def split: option.splits list.splits)

lemma normalize_headers_fst:
  "fst (normalize_headers g record)
   = first_row g @ filter (\<lambda>k. k \<notin> set (first_row g)) (map fst record)"
  by (simp add: normalize_headers_def Let_def)

lemma normalize_headers_snd_first_row:
  assumes "\<not> blank_row (fst (normalize_headers g record))"
  shows "first_row (snd (normalize_headers g record)) = fst (normalize_headers g record)"
proof (cases "filter (\<lambda>k. k \<notin> set (first_row g)) (map fst record) = []")
  case True then show ?thesis by (simp add: normalize_headers_def Let_def)
next
  case False
  have "\<not> blank_row (first_row g @ filter (\<lambda>k. k \<notin> set (first_row g)) (map fst record))"
    using assms by (simp add: normalize_headers_fst)
  then show ?thesis
    using False
    by (simp add: normalize_headers_def Let_def first_row_new_header [unfolded One_nat_def])
qed

lemma normalize_headers_snd_drop:
  "drop 1 (snd (normalize_headers g record)) = drop 1 g"
  by (simp add: normalize_headers_def Let_def)

text \<open>
  Claim C3. The header that \<open>_normalize_headers\<close> returns is the header the sheet had,
  in its order, followed by the keys of the record that it did not have, in the order of
  the record. It holds every earlier column and every key of the record; its first
  columns are the earlier header; the columns after them are keys of the record that were
  not there. When the header holds a name that is not blank, a read of the sheet after
  the call has this header as its columns; the rows below the header are untouched.
\<close>

theorem normalize_headers_superset:
  "fst (normalize_headers g record)
     = first_row g @ filter (\<lambda>k. k \<notin> set (first_row g)) (map fst record)
   \<and> set (fst (normalize_headers g record)) = set (first_row g) \<union> fst ` set record
   \<and> take (length (first_row g)) (fst (normalize_headers g record)) = first_row g
   \<and> set (drop (length (first_row g)) (fst (normalize_headers g record)))
       = fst ` set record - set (first_row g)
   \<and> (\<not> blank_row (fst (normalize_headers g record))
        \<longrightarrow> columns (read_sheet name
               (put_sheet name (snd (normalize_headers g record)) st))
            = fst (normalize_headers g record))
   \<and> drop 1 (snd (normalize_headers g record)) = drop 1 g"
proof -
  have 2: "set (fst (normalize_headers g record)) = set (first_row g) \<union> fst ` set record"
    unfolding normalize_headers_fst by auto
  have 3: "take (length (first_row g)) (fst (normalize_headers g record)) = first_row g"
    unfolding normalize_headers_fst by simp
  have 4: "set (drop (length (first_row g)) (fst (normalize_headers g record)))
       = fst ` set record - set (first_row g)"
    unfolding normalize_headers_fst by auto
  have 5: "\<not> blank_row (fst (normalize_headers g record))
        \<longrightarrow> columns (read_sheet name
               (put_sheet name (snd (normalize_headers g record)) st))
            = fst (normalize_headers g record)"
    by (simp add: columns_read_sheet put_sheet_def normalize_headers_snd_first_row)
  from normalize_headers_fst 2 3 4 5 normalize_headers_snd_drop show ?thesis
    by (intro conjI)
qed

theorem normalize_headers_superset_witness:
  "columns (read_sheet (ascii ''T'')
      (put_sheet (ascii ''T'')
         (snd (normalize_headers [[ascii ''a''], [ascii ''1'']] [(ascii ''b'', PStr (ascii ''x''))]))
         \<lparr>sheets = Map.empty, cache = Map.empty\<rparr>))
   = [ascii ''a'', ascii ''b'']"
proof -
  note th0 = normalize_headers_superset [of "[[ascii ''a''], [ascii ''1'']]"
      "[(ascii ''b'', PStr (ascii ''x''))]" "ascii ''T''"
      "\<lparr>sheets = Map.empty, cache = Map.empty\<rparr>"]
  have f: "first_row [[ascii ''a''], [ascii ''1'']] = [ascii ''a'']"
    by (simp add: first_row_def get_all_values_def used_rows_def blank_row_def pad_def ascii_def)
  have h: "fst (normalize_headers [[ascii ''a''], [ascii ''1'']] [(ascii ''b'', PStr (ascii ''x''))])
           = [ascii ''a'', ascii ''b'']"
    unfolding th0 [THEN conjunct1] f by (simp add: ascii_def)
  have n: "\<not> blank_row [ascii ''a'', ascii ''b'']" by (simp add: blank_row_def ascii_def)
  from th0 [THEN conjunct2, THEN conjunct2, THEN conjunct2, THEN conjunct2, THEN conjunct1]
  show ?thesis unfolding h using n by simp
qed

section \<open>Properties of the add handler\<close>

lemma put_sheet_twice [simp]: "put_sheet name g (put_sheet name g' st) = put_sheet name g st"
  by (simp add: put_sheet_def)

lemma sheets_put_sheet [simp]:
  "sheets (put_sheet name g st) n = (if n = name then Some g else sheets st n)"
  by (simp add: put_sheet_def)

lemma cache_put_sheet [simp]: "cache (put_sheet name g st) = cache st"
  by (simp add: put_sheet_def)
















section \<open>Properties of append followed by a read\<close>



lemma length_project [simp]: "length (project rcd headers) = length headers"
  by (simp add: project_def)






section \<open>Properties of upsert\<close>























section \<open>Properties of repeated upsert\<close>















end
